theory Spec2Isabelle
  imports Main "HOL-Library.Word"
begin

section \<open>Errors and foreign types\<close>

text \<open>
  The stubs of \<^verbatim>\<open>ffi_stubs.c\<close> leave a function in three ways besides returning: a failed
  \<^verbatim>\<open>assert\<close>, an OCaml exception raised from C, and undefined behaviour of C itself
  (a remainder by zero, a write through a null or too short array). Each is a value of
  \<open>error\<close>. Byte counts, offsets and alignments held in a \<^verbatim>\<open>size_t\<close> or an \<^verbatim>\<open>int\<close> are
  natural numbers: the quantities are sizes of stack-allocated call buffers and of struct
  layouts, far below the range of either type, and neither the wrap-around of \<^verbatim>\<open>size_t\<close>
  nor the narrowing of an offset to \<^verbatim>\<open>int\<close> is part of the development. A failed
  \<^verbatim>\<open>assert\<close> is an error: the stubs are taken as compiled with assertions.
\<close>

datatype error =
    Assertion_failure
  | Out_of_memory
  | FFI_internal_error string
  | Unix_error int string
  | Caml_exception string
  | Division_by_zero
  | Invalid_access

text \<open>
  \<^verbatim>\<open>ffi_type\<close> is declared by libffi; the stubs read and write its members
  \<^verbatim>\<open>size\<close> and \<^verbatim>\<open>alignment\<close> only (here \<open>size'\<close> and \<open>alignment'\<close>). The alignment is
  an \<^verbatim>\<open>unsigned short\<close>, a word of 16 bits: reading it gives \<open>unat\<close> of the word, and a
  value written to it is cut to 16 bits.
\<close>

record ffi_type =
  size' :: nat
  alignment' :: "16 word"

datatype ffi_status = FFI_OK | FFI_BAD_TYPEDEF | FFI_BAD_ABI | FFI_other_status

section \<open>The alignment helper\<close>

text \<open>
  \<^verbatim>\<open>static size_t aligned_offset(size_t offset, size_t alignment)
  { return offset + (offset % alignment); }\<close>
  The remainder by zero is undefined in C and is an error of the model.
\<close>

definition aligned_offset :: "nat \<Rightarrow> nat \<Rightarrow> error + nat" where
  "aligned_offset offset alignment =
     (if alignment = 0 then Inl Division_by_zero
      else Inr (offset + offset mod alignment))"

section \<open>Buffer specifications\<close>

datatype bufferspec_state =
  BUILDING | BUILDING_UNPASSABLE | STRUCTSPEC | STRUCTSPEC_UNPASSABLE | CALLSPEC

text \<open>
  A cell of a C array of pointers: memory that \<^verbatim>\<open>realloc\<close> or \<^verbatim>\<open>alloca\<close> handed out and
  nobody wrote yet, the null pointer, or a pointer to a value. A pointer variable is an
  \<open>option\<close>: \<open>None\<close> is \<^verbatim>\<open>NULL\<close>, \<open>Some xs\<close> an allocated array with cells \<open>xs\<close>.
\<close>

datatype 'a slot = Indeterminate | Null | Ptr 'a

record bufferspec =
  bytes :: nat
  nelements :: nat
  capacity :: nat
  max_align :: nat
  state :: bufferspec_state
  args :: "ffi_type slot list option"

text \<open>
  \<^verbatim>\<open>struct callspec\<close> starts with a \<^verbatim>\<open>struct bufferspec\<close> and the stubs cast between the
  two, so a call specification is an extension of the record and the functions on buffer
  specifications take any extension. Of \<^verbatim>\<open>ffi_cif\<close> the stubs read \<^verbatim>\<open>nargs\<close> only.
\<close>

record ffi_cif =
  nargs :: nat

record callspec = bufferspec +
  roffset :: nat
  cif :: ffi_cif

text \<open>
  What the stubs take from libffi and from the C platform: the descriptor of the pointer
  type, \<^verbatim>\<open>sizeof(void *)\<close>, and \<^verbatim>\<open>ffi_prep_cif\<close> applied to the number of arguments, the
  return type and the argument array, giving its status and the \<^verbatim>\<open>ffi_cif\<close> it wrote.
\<close>

record platform =
  ffi_type_pointer :: ffi_type
  sizeof_pointer :: nat
  ffi_prep_cif :: "nat \<Rightarrow> ffi_type \<Rightarrow> ffi_type slot list option \<Rightarrow> ffi_status \<times> ffi_cif"

text \<open>
  \<^verbatim>\<open>bufferspec_prototype = { 0, 0, 0, 0, BUILDING, NULL }\<close>; \<^verbatim>\<open>allocate_custom\<close> copies it
  into a fresh block. For a call specification the members after the buffer specification
  are whatever the caller of the model supplies.
\<close>

definition allocate_custom :: "'a \<Rightarrow> 'a bufferspec_scheme" where
  "allocate_custom rest =
     \<lparr>bytes = 0, nelements = 0, capacity = 0, max_align = 0, state = BUILDING, args = None,
      \<dots> = rest\<rparr>"

definition ctypes_allocate_bufferspec :: bufferspec where
  "ctypes_allocate_bufferspec = allocate_custom ()"

definition ctypes_allocate_callspec :: "nat \<Rightarrow> ffi_cif \<Rightarrow> callspec" where
  "ctypes_allocate_callspec r c = allocate_custom \<lparr>roffset = r, cif = c\<rparr>"

definition check_ffi_status :: "ffi_status \<Rightarrow> error + unit" where
  "check_ffi_status status =
     (case status of
        FFI_OK \<Rightarrow> Inr ()
      | FFI_BAD_TYPEDEF \<Rightarrow> Inl (FFI_internal_error ''FFI_BAD_TYPEDEF'')
      | FFI_BAD_ABI \<Rightarrow> Inl (FFI_internal_error ''FFI_BAD_ABI'')
      | FFI_other_status \<Rightarrow> Inl Assertion_failure)"

text \<open>
  \<^verbatim>\<open>realloc(p, n * sizeof *p)\<close>: refused (\<open>None\<close>) or an array of \<open>n\<close> cells that starts with
  the old cells. \<open>store p i v\<close> is \<^verbatim>\<open>p[i] = v\<close> and \<open>load p i\<close> is \<^verbatim>\<open>p[i]\<close>.
\<close>

definition realloc :: "bool \<Rightarrow> 'a slot list option \<Rightarrow> nat \<Rightarrow> 'a slot list option" where
  "realloc granted p n =
     (if granted
      then Some (case p of
                   None \<Rightarrow> replicate n Indeterminate
                 | Some xs \<Rightarrow> take n xs @ replicate (n - length xs) Indeterminate)
      else None)"

definition store :: "'a slot list option \<Rightarrow> nat \<Rightarrow> 'a slot \<Rightarrow> error + 'a slot list option" where
  "store p i v =
     (case p of
        None \<Rightarrow> Inl Invalid_access
      | Some xs \<Rightarrow> if i < length xs then Inr (Some (xs[i := v])) else Inl Invalid_access)"

definition load :: "'a slot list option \<Rightarrow> nat \<Rightarrow> error + 'a" where
  "load p i =
     (case p of
        None \<Rightarrow> Inl Invalid_access
      | Some xs \<Rightarrow>
          if i < length xs
          then (case xs ! i of Ptr t \<Rightarrow> Inr t | _ \<Rightarrow> Inl Invalid_access)
          else Inl Invalid_access)"

subsection \<open>Adding elements\<close>

definition ctypes_add_unpassable_argument' ::
  "'a bufferspec_scheme \<Rightarrow> nat \<Rightarrow> nat \<Rightarrow> (error + nat) \<times> 'a bufferspec_scheme" where
  "ctypes_add_unpassable_argument' b sz alignment =
     (if state b \<noteq> BUILDING \<and> state b \<noteq> BUILDING_UNPASSABLE then (Inl Assertion_failure, b)
      else
        let b1 = b\<lparr>state := BUILDING_UNPASSABLE, args := None\<rparr> in
        case aligned_offset (bytes b1) alignment of
          Inl e \<Rightarrow> (Inl e, b1)
        | Inr offset \<Rightarrow>
            (Inr offset,
             b1\<lparr>bytes := offset + sz,
                nelements := nelements b1 + 1,
                max_align := (if alignment > max_align b1 then alignment else max_align b1)\<rparr>))"

text \<open>
  The stub \<^verbatim>\<open>ctypes_add_unpassable_argument\<close> unboxes its arguments and calls the helper
  \<^verbatim>\<open>ctypes_add_unpassable_argument_\<close> (here with a prime for the underscore).
\<close>

definition ctypes_add_unpassable_argument ::
  "'a bufferspec_scheme \<Rightarrow> nat \<Rightarrow> nat \<Rightarrow> (error + nat) \<times> 'a bufferspec_scheme" where
  "ctypes_add_unpassable_argument b sz alignment = ctypes_add_unpassable_argument' b sz alignment"

definition increment_size :: nat where
  "increment_size = 8"

text \<open>
  \<open>granted\<close> says whether the allocator grants the \<^verbatim>\<open>realloc\<close> of this call, should the
  call make one.
\<close>

definition ctypes_add_argument ::
  "bool \<Rightarrow> 'a bufferspec_scheme \<Rightarrow> ffi_type \<Rightarrow> (error + nat) \<times> 'a bufferspec_scheme" where
  "ctypes_add_argument granted b argtype =
     (case state b of
        BUILDING \<Rightarrow>
          (case aligned_offset (bytes b) (unat (alignment' argtype)) of
             Inl e \<Rightarrow> (Inl e, b)
           | Inr offset \<Rightarrow>
               let b1 = b\<lparr>bytes := offset + size' argtype\<rparr> in
               case (if nelements b1 + 2 \<ge> capacity b1
                     then (case realloc granted (args b1) (capacity b1 + increment_size) of
                             None \<Rightarrow> Inl Out_of_memory
                           | Some temp \<Rightarrow>
                               Inr (b1\<lparr>args := Some temp,
                                       capacity := capacity b1 + increment_size\<rparr>))
                     else Inr b1) of
                 Inl e \<Rightarrow> (Inl e, b1)
               | Inr b2 \<Rightarrow>
                   (case store (args b2) (nelements b2) (Ptr argtype) of
                      Inl e \<Rightarrow> (Inl e, b2)
                    | Inr a1 \<Rightarrow>
                        (case store a1 (nelements b2 + 1) Null of
                           Inl e \<Rightarrow> (Inl e, b2\<lparr>args := a1\<rparr>)
                         | Inr a2 \<Rightarrow>
                             (Inr offset,
                              b2\<lparr>args := a2,
                                 nelements := nelements b2 + 1,
                                 max_align := (if unat (alignment' argtype) > max_align b2
                                               then unat (alignment' argtype)
                                               else max_align b2)\<rparr>))))
      | BUILDING_UNPASSABLE \<Rightarrow>
          ctypes_add_unpassable_argument' b (size' argtype) (unat (alignment' argtype))
      | _ \<Rightarrow> (Inl Assertion_failure, b))"

text \<open>
  A sequence of \<^verbatim>\<open>add_argument\<close> calls on one buffer specification, as the OCaml side
  makes them: each call with the allocator's answer and the element type. The run stops at
  the first call that fails; otherwise it gives the offsets the calls returned, in order.
\<close>

fun add_arguments ::
  "'a bufferspec_scheme \<Rightarrow> (bool \<times> ffi_type) list \<Rightarrow> (error + nat list) \<times> 'a bufferspec_scheme" where
  "add_arguments b [] = (Inr [], b)"
| "add_arguments b ((granted, t) # rest) =
     (case ctypes_add_argument granted b t of
        (Inl e, b') \<Rightarrow> (Inl e, b')
      | (Inr offset, b') \<Rightarrow>
          (case add_arguments b' rest of
             (Inl e, b'') \<Rightarrow> (Inl e, b'')
           | (Inr offsets, b'') \<Rightarrow> (Inr (offset # offsets), b'')))"

subsection \<open>Preparing a call specification\<close>

definition ctypes_prep_callspec ::
  "platform \<Rightarrow> callspec \<Rightarrow> ffi_type \<Rightarrow> (error + unit) \<times> callspec" where
  "ctypes_prep_callspec P callspec rffitype =
     (case aligned_offset (bytes callspec) (unat (alignment' rffitype)) of
        Inl e \<Rightarrow> (Inl e, callspec)
      | Inr r \<Rightarrow>
          let c1 = callspec\<lparr>roffset := r, bytes := r + size' rffitype\<rparr> in
          case aligned_offset (bytes c1) (unat (alignment' (ffi_type_pointer P))) of
            Inl e \<Rightarrow> (Inl e, c1)
          | Inr padded \<Rightarrow>
              let c2 = c1\<lparr>bytes := padded + size' (ffi_type_pointer P)\<rparr>;
                  (status, prepared) = ffi_prep_cif P (nelements c2) rffitype (args c2);
                  c3 = c2\<lparr>cif := prepared\<rparr>
              in case check_ffi_status status of
                   Inl e \<Rightarrow> (Inl e, c3)
                 | Inr _ \<Rightarrow> (Inr (), c3\<lparr>state := CALLSPEC\<rparr>))"

subsection \<open>Completing a struct\<close>

text \<open>
  In state \<^verbatim>\<open>BUILDING\<close> the source obtains the descriptor of the struct from
  \<^verbatim>\<open>ctypes_allocate_struct_type_info\<close> (declared in \<^verbatim>\<open>type_info_stubs.h\<close>, not among the
  sources) applied to the null-terminated element array, and lets libffi's \<^verbatim>\<open>ffi_prep_cif\<close>
  compute its size and alignment. Both are outside the sources and are modelled together,
  from the spec.
\<close>

text \<open>
  Modelled from the spec: the alignment contract of 4.1, which libffi's layout of a struct
  is taken to meet. \<open>round_up offset alignment\<close> is the least multiple of \<open>alignment\<close> that
  is not below \<open>offset\<close>.
\<close>

definition round_up :: "nat \<Rightarrow> nat \<Rightarrow> nat" where
  "round_up offset alignment =
     (if alignment = 0 then offset else ((offset + alignment - 1) div alignment) * alignment)"

text \<open>The element types of a null-terminated array: those before the first cell that is no pointer.\<close>

fun elements_upto_null :: "'a slot list \<Rightarrow> 'a list" where
  "elements_upto_null (Ptr t # xs) = t # elements_upto_null xs"
| "elements_upto_null _ = []"

text \<open>
  Modelled from the spec: the size and alignment of a passable struct, which the source
  leaves to libffi's \<^verbatim>\<open>ffi_prep_cif\<close>. Following 4.1 and 8 of the spec, the elements are laid
  out in order, each at the least multiple of its alignment that is not below the running
  size; the alignment of the struct is the maximum element alignment and its size is padded
  to that alignment.
\<close>

fun struct_layout :: "ffi_type list \<Rightarrow> ffi_type \<Rightarrow> ffi_type" where
  "struct_layout [] acc = acc\<lparr>size' := round_up (size' acc) (unat (alignment' acc))\<rparr>"
| "struct_layout (t # ts) acc =
     struct_layout ts
       \<lparr>size' = round_up (size' acc) (unat (alignment' t)) + size' t,
        alignment' = max (alignment' acc) (alignment' t)\<rparr>"

text \<open>
  Modelled from the spec: \<^verbatim>\<open>ctypes_allocate_struct_type_info\<close> of \<^verbatim>\<open>type_info_stubs\<close>, which
  is not among the sources. It gives the descriptor of the struct whose elements are those of
  the null-terminated array, here with the size and alignment that \<^verbatim>\<open>ffi_prep_cif\<close> computes
  for it afterwards.
\<close>

definition ctypes_allocate_struct_type_info :: "ffi_type slot list option \<Rightarrow> ffi_type" where
  "ctypes_allocate_struct_type_info p =
     struct_layout (case p of None \<Rightarrow> [] | Some xs \<Rightarrow> elements_upto_null xs)
       \<lparr>size' = 0, alignment' = 0\<rparr>"

text \<open>
  \<^verbatim>\<open>ctypes_complete_structspec\<close>. In the \<^verbatim>\<open>BUILDING_UNPASSABLE\<close> case the source returns
  (\<^verbatim>\<open>CAMLreturn(block)\<close>) before the statement that assigns \<^verbatim>\<open>STRUCTSPEC_UNPASSABLE\<close>,
  so that assignment is never executed and is absent here. The assignment of the maximum
  alignment, a \<^verbatim>\<open>size_t\<close>, to the \<^verbatim>\<open>unsigned short\<close> member cuts it to 16 bits.
\<close>

definition ctypes_complete_structspec ::
  "platform \<Rightarrow> 'a bufferspec_scheme \<Rightarrow> (error + ffi_type) \<times> 'a bufferspec_scheme" where
  "ctypes_complete_structspec P b =
     (let t = ctypes_allocate_struct_type_info (args b) in
      case state b of
        BUILDING \<Rightarrow>
          (let (status, dummy_cif) = ffi_prep_cif P 0 t None in
           case check_ffi_status status of
             Inl e \<Rightarrow> (Inl e, b)
           | Inr _ \<Rightarrow> (Inr t, b\<lparr>state := STRUCTSPEC\<rparr>))
      | BUILDING_UNPASSABLE \<Rightarrow>
          (case aligned_offset (bytes b) (max_align b) of
             Inl e \<Rightarrow> (Inl e, b)
           | Inr sz \<Rightarrow> (Inr (t\<lparr>size' := sz, alignment' := word_of_nat (max_align b)\<rparr>), b))
      | _ \<Rightarrow> (Inl Assertion_failure, b))"

section \<open>Calling a C function\<close>

text \<open>
  The call buffer: a scratch area at address \<open>buf\<close> and, behind it, the array of pointers
  into the scratch area, here the list of its cells.
\<close>

definition compute_arg_buffer_size ::
  "platform \<Rightarrow> 'a bufferspec_scheme \<Rightarrow> error + nat \<times> nat" where
  "compute_arg_buffer_size P b =
     (if state b \<noteq> CALLSPEC then Inl Assertion_failure
      else case aligned_offset (bytes b) (unat (alignment' (ffi_type_pointer P))) of
             Inl e \<Rightarrow> Inl e
           | Inr arg_array_offset \<Rightarrow>
               Inr (arg_array_offset + nelements b * sizeof_pointer P, arg_array_offset))"

function populate_loop ::
  "'a bufferspec_scheme \<Rightarrow> nat \<Rightarrow> nat \<Rightarrow> nat \<Rightarrow> nat slot list \<Rightarrow> error + nat slot list" where
  "populate_loop b buf i offset arg_array =
     (if i < nelements b
      then (case load (args b) i of
              Inl e \<Rightarrow> Inl e
            | Inr t \<Rightarrow>
                (case aligned_offset offset (unat (alignment' t)) of
                   Inl e \<Rightarrow> Inl e
                 | Inr offset' \<Rightarrow>
                     if i < length arg_array
                     then populate_loop b buf (i + 1) (offset' + size' t)
                            (arg_array[i := Ptr (buf + offset')])
                     else Inl Invalid_access))
      else Inr arg_array)"
  by pat_completeness auto
termination
  by (relation "measure (\<lambda>(b, buf, i, offset, arg_array). nelements b - i)") auto

definition populate_callbuffer ::
  "'a bufferspec_scheme \<Rightarrow> nat \<Rightarrow> nat \<Rightarrow> nat \<Rightarrow> error + nat slot list" where
  "populate_callbuffer b buf bytes' arg_array_offset =
     populate_loop b buf 0 0 (replicate (nelements b) Indeterminate)"

text \<open>
  The world outside the stubs: the C variable \<^verbatim>\<open>errno\<close> and whatever else the closures
  and the C function read and write. A closure called through \<^verbatim>\<open>caml_callback\<close> returns
  or raises an OCaml exception. \<open>ffi_call\<close> is libffi's: it gets the call interface, the
  function, the address of the return slot, and the address and the cells of the pointer
  array. \<open>buffer\<close> is the address \<^verbatim>\<open>alloca\<close> returns.
\<close>

record world =
  errno :: int

definition ctypes_call ::
  "platform \<Rightarrow> (ffi_cif \<Rightarrow> 'f \<Rightarrow> nat \<Rightarrow> nat \<Rightarrow> nat slot list \<Rightarrow> 'w \<Rightarrow> 'w) \<Rightarrow> nat \<Rightarrow>
   'f \<Rightarrow> callspec \<Rightarrow> (nat \<Rightarrow> 'w \<Rightarrow> (error + unit) \<times> 'w) \<Rightarrow> (nat \<Rightarrow> 'w \<Rightarrow> (error + 'r) \<times> 'w) \<Rightarrow>
   'w \<Rightarrow> (error + 'r) \<times> 'w" where
  "ctypes_call P ffi_call buffer cfunction callspec argwriter rvreader w =
     (if state callspec \<noteq> CALLSPEC then (Inl Assertion_failure, w)
      else case compute_arg_buffer_size P callspec of
        Inl e \<Rightarrow> (Inl e, w)
      | Inr (bytes', arg_array_offset) \<Rightarrow>
          let return_slot = buffer + roffset callspec in
          case populate_callbuffer callspec buffer bytes' arg_array_offset of
            Inl e \<Rightarrow> (Inl e, w)
          | Inr arg_array \<Rightarrow>
              (case argwriter buffer w of
                 (Inl e, w1) \<Rightarrow> (Inl e, w1)
               | (Inr _, w1) \<Rightarrow>
                   (case aligned_offset (bytes callspec) (unat (alignment' (ffi_type_pointer P))) of
                      Inl e \<Rightarrow> (Inl e, w1)
                    | Inr avalue \<Rightarrow>
                        rvreader return_slot
                          (ffi_call (cif callspec) cfunction return_slot (buffer + avalue)
                             arg_array w1))))"

text \<open>
  \<^verbatim>\<open>strcpy(buffer, String_val(fnname))\<close> copies the name up to its first NUL byte.
\<close>

definition strcpy :: "string \<Rightarrow> string" where
  "strcpy src = takeWhile (\<lambda>c. c \<noteq> CHR 0x00) src"

definition ctypes_call_errno ::
  "platform \<Rightarrow> (ffi_cif \<Rightarrow> 'f \<Rightarrow> nat \<Rightarrow> nat \<Rightarrow> nat slot list \<Rightarrow> 'x world_scheme \<Rightarrow> 'x world_scheme) \<Rightarrow>
   nat \<Rightarrow> string \<Rightarrow> 'f \<Rightarrow> callspec \<Rightarrow> (nat \<Rightarrow> 'x world_scheme \<Rightarrow> (error + unit) \<times> 'x world_scheme) \<Rightarrow>
   (nat \<Rightarrow> 'x world_scheme \<Rightarrow> (error + 'r) \<times> 'x world_scheme) \<Rightarrow>
   'x world_scheme \<Rightarrow> (error + 'r) \<times> 'x world_scheme" where
  "ctypes_call_errno P ffi_call buffer fnname cfunction callspec argwriter rvreader w =
     (case ctypes_call P ffi_call buffer cfunction callspec argwriter rvreader (w\<lparr>errno := 0\<rparr>) of
        (Inl e, w') \<Rightarrow> (Inl e, w')
      | (Inr rv, w') \<Rightarrow>
          if errno w' \<noteq> 0 then (Inl (Unix_error (errno w') (strcpy fnname)), w')
          else (Inr rv, w'))"

section \<open>Callbacks from C\<close>

text \<open>
  \<^verbatim>\<open>enum boxedfn_tags { Done, Fn }\<close>: a boxed function is \<open>Fn f\<close>, where \<open>f\<close> takes the address
  of the next argument and gives the rest of the chain, or \<open>Done h\<close>, where \<open>h\<close> writes the
  result to the address it is given. The closures of a chain return normally: the source
  does not support callbacks that raise (its first comment).
\<close>

datatype 'w boxedfn =
    Done "nat \<Rightarrow> 'w \<Rightarrow> 'w"
  | Fn "nat \<Rightarrow> 'w \<Rightarrow> 'w boxedfn \<times> 'w"

function callback_loop ::
  "nat \<Rightarrow> nat \<Rightarrow> nat list \<Rightarrow> 'w boxedfn \<Rightarrow> 'w \<Rightarrow> (error + 'w boxedfn) \<times> 'w" where
  "callback_loop arity i args' boxedfn w =
     (if i < arity
      then (if i < length args'
            then (case boxedfn of
                    Fn f \<Rightarrow> (case f (args' ! i) w of (boxedfn', w') \<Rightarrow>
                              callback_loop arity (i + 1) args' boxedfn' w')
                  | Done h \<Rightarrow> (Inl Assertion_failure, w))
            else (Inl Invalid_access, w))
      else (Inr boxedfn, w))"
  by pat_completeness auto
termination
  by (relation "measure (\<lambda>(arity, i, args', boxedfn, w). arity - i)") auto

definition callback_handler ::
  "ffi_cif \<Rightarrow> nat \<Rightarrow> nat list \<Rightarrow> 'w boxedfn \<Rightarrow> 'w \<Rightarrow> (error + unit) \<times> 'w" where
  "callback_handler cif' ret args' user_data w =
     (let arity = nargs cif' in
      case callback_loop arity 0 args' user_data w of
        (Inl e, w') \<Rightarrow> (Inl e, w')
      | (Inr boxedfn, w') \<Rightarrow>
          (case boxedfn of
             Done h \<Rightarrow> (Inr (), h ret w')
           | Fn f \<Rightarrow> (Inl Assertion_failure, w')))"

text \<open>
  The chain as the spec describes it: one \<open>Fn\<close> node is consumed per argument, in the order
  of the arguments, each step applied to the argument's address and giving the next node.
  \<open>None\<close>: the chain ended (\<open>Done\<close>) while arguments were left.
\<close>

fun consume_chain :: "'w boxedfn \<Rightarrow> nat list \<Rightarrow> 'w \<Rightarrow> ('w boxedfn \<times> 'w) option" where
  "consume_chain node [] w = Some (node, w)"
| "consume_chain (Fn step) (a # as) w = (case step a w of (node', w') \<Rightarrow> consume_chain node' as w')"
| "consume_chain (Done h) (a # as) w = None"

section \<open>Notions used in the proofs\<close>

text \<open>
  The offsets that the layout walk of the source assigns to a list of element types when it
  starts at \<open>offset\<close>: each element goes to \<open>offset + offset mod alignment\<close> and the walk
  goes on behind it.
\<close>

fun offsets_from :: "nat \<Rightarrow> ffi_type list \<Rightarrow> nat list" where
  "offsets_from offset [] = []"
| "offsets_from offset (t # ts) =
     (offset + offset mod unat (alignment' t))
       # offsets_from (offset + offset mod unat (alignment' t) + size' t) ts"

text \<open>
  The shape of a buffer specification that holds the element types \<open>ts\<close>: no array yet, or
  an array of \<open>capacity\<close> cells that starts with pointers to the element types, followed by
  the null terminator, with room for one more cell.
\<close>

definition holds_elements :: "'a bufferspec_scheme \<Rightarrow> ffi_type list \<Rightarrow> bool" where
  "holds_elements b ts \<longleftrightarrow>
     nelements b = length ts \<and>
     (case args b of
        None \<Rightarrow> ts = [] \<and> capacity b = 0
      | Some xs \<Rightarrow>
          length xs = capacity b \<and> length ts + 2 \<le> capacity b \<and>
          take (length ts) xs = map Ptr ts \<and> xs ! length ts = Null)"

declare callback_loop.simps [simp del]
declare populate_loop.simps [simp del]

section \<open>Properties\<close>

text \<open>The helper unfolded, with zero alignments of 16 bits recognised as such.\<close>

lemmas aligned_offset_simps = aligned_offset_def unat_gt_0 unat_0_iff

subsection \<open>Buffer specifications built by adding arguments\<close>

text \<open>
  One successful \<^verbatim>\<open>add_argument\<close> call in state \<^verbatim>\<open>BUILDING\<close>: what it returns and how
  it leaves the buffer specification.
\<close>

lemma add_argument_building:
  assumes "state b = BUILDING" and "holds_elements b ts"
    and "ctypes_add_argument granted b t = (Inr offset, b')"
  shows "alignment' t \<noteq> 0 \<and> offset = bytes b + bytes b mod unat (alignment' t)
         \<and> bytes b' = offset + size' t \<and> state b' = BUILDING
         \<and> max_align b' = max (max_align b) (unat (alignment' t))
         \<and> (capacity b' = capacity b \<or> capacity b' = capacity b + 8)
         \<and> holds_elements b' (ts @ [t])"
proof (cases "args b")
  case None
  with assms show ?thesis
    by (auto simp add: ctypes_add_argument_def aligned_offset_simps holds_elements_def realloc_def
        store_def increment_size_def Let_def take_Suc_conv_app_nth split: if_splits)
next
  case (Some xs)
  with assms have xs: "length xs = capacity b" "length ts + 2 \<le> capacity b"
    "take (length ts) xs = map Ptr ts" "nelements b = length ts"
    by (simp_all add: holds_elements_def)
  have upd: "take (Suc (length ts)) (ys[length ts := Ptr t, Suc (length ts) := Null]) = map Ptr ts @ [Ptr t]"
    if "take (length ts) ys = map Ptr ts" "length ts + 2 \<le> length ys" for ys
    using that by (simp add: take_Suc_conv_app_nth)
  show ?thesis
  proof (cases "nelements b + 2 \<ge> capacity b")
    case True
    with assms Some xs upd [of "xs @ replicate 8 Indeterminate"] show ?thesis
      by (auto simp add: ctypes_add_argument_def aligned_offset_simps holds_elements_def realloc_def
        store_def increment_size_def Let_def max_def split: if_splits)
  next
    case False
    with assms Some xs upd [of xs] show ?thesis
      by (auto simp add: ctypes_add_argument_def aligned_offset_simps holds_elements_def
        store_def Let_def max_def split: if_splits)
  qed
qed

lemma add_arguments_building:
  assumes "state b = BUILDING" and "holds_elements b ts"
    and "add_arguments b calls = (Inr offsets, b')"
  shows "state b' = BUILDING \<and> holds_elements b' (ts @ map snd calls)
         \<and> offsets = offsets_from (bytes b) (map snd calls)
         \<and> (\<forall>c \<in> set calls. alignment' (snd c) \<noteq> 0)"
  using assms
proof (induction calls arbitrary: b ts offsets)
  case Nil
  then show ?case by simp
next
  case (Cons c calls)
  obtain granted t where c: "c = (granted, t)" by (cases c)
  from Cons.prems(3) c obtain offset b1 offsets' where
    step: "ctypes_add_argument granted b t = (Inr offset, b1)"
    and rest: "add_arguments b1 calls = (Inr offsets', b')"
    and offs: "offsets = offset # offsets'"
    by (auto split: prod.splits sum.splits)
  from add_argument_building [OF Cons.prems(1,2) step]
  have s: "alignment' t \<noteq> 0" "offset = bytes b + bytes b mod unat (alignment' t)"
    "bytes b1 = offset + size' t" "state b1 = BUILDING" "holds_elements b1 (ts @ [t])"
    by simp_all
  from Cons.IH [OF s(4,5) rest] s c offs show ?case by simp
qed

lemma holds_elements_allocate_custom: "holds_elements (allocate_custom rest) []"
  by (simp add: holds_elements_def allocate_custom_def)

lemma state_allocate_custom: "state (allocate_custom rest) = BUILDING"
  by (simp add: allocate_custom_def)

text \<open>
  C1. The helper is documented as computing the next offset that satisfies the alignment,
  that is the least multiple of the alignment that is not below the offset. At offset 1 and
  alignment 4 it returns 2, which is no multiple of 4 (the least one not below 1 is 4).
\<close>

theorem aligned_offset_1_4_not_aligned:
  "aligned_offset 1 4 = Inr 2 \<and> \<not> (4::nat) dvd 2 \<and> (4::nat) dvd 4 \<and> (1::nat) \<le> 4"
  by (simp add: aligned_offset_simps)

text \<open>
  C2. Every offset returned by a sequence of \<^verbatim>\<open>add_argument\<close> calls is a multiple of the
  element's alignment, and the byte ranges of the elements are disjoint. At the fresh buffer
  specification, an element of size 1 and alignment 1 followed by an element of size 4 and
  alignment 4 gets the offsets 0 and 2: the second offset is no multiple of its alignment 4.
\<close>

theorem add_arguments_offset_not_aligned:
  "fst (add_arguments ctypes_allocate_bufferspec
          [(True, \<lparr>size' = 1, alignment' = 1\<rparr>), (True, \<lparr>size' = 4, alignment' = 4\<rparr>)])
     = Inr [0, 2]
   \<and> \<not> unat (alignment' \<lparr>size' = 4, alignment' = 4\<rparr>) dvd 2"
  by (simp add: ctypes_allocate_bufferspec_def allocate_custom_def ctypes_add_argument_def
      aligned_offset_simps realloc_def store_def increment_size_def)

text \<open>
  The other half of C2 holds of the layout walk as it is: an element starts at or behind the
  end of every element added before it, so the byte ranges of the elements of a successful
  run are pairwise disjoint.
\<close>

lemma offsets_from_lower: "k \<in> set (offsets_from offset ts) \<Longrightarrow> offset \<le> k"
proof (induction ts arbitrary: offset)
  case Nil
  then show ?case by simp
next
  case (Cons t ts)
  from Cons.prems Cons.IH [of "offset + offset mod unat (alignment' t) + size' t"]
  show ?case by auto
qed

lemma length_offsets_from: "length (offsets_from offset ts) = length ts"
  by (induction ts arbitrary: offset) simp_all

lemma offsets_from_disjoint:
  "i < j \<Longrightarrow> j < length ts
   \<Longrightarrow> offsets_from offset ts ! i + size' (ts ! i) \<le> offsets_from offset ts ! j"
proof (induction ts arbitrary: offset i j)
  case Nil
  then show ?case by simp
next
  case (Cons t ts)
  let ?next = "offset + offset mod unat (alignment' t) + size' t"
  from Cons.prems obtain j' where j: "j = Suc j'" "j' < length ts" by (cases j) simp_all
  show ?case
  proof (cases i)
    case 0
    from j have "offsets_from ?next ts ! j' \<in> set (offsets_from ?next ts)"
      by (simp add: length_offsets_from)
    from offsets_from_lower [OF this] 0 j show ?thesis by simp
  next
    case (Suc i')
    with Cons.prems j Cons.IH [of i' j' ?next] show ?thesis by simp
  qed
qed

lemma add_arguments_ranges_disjoint:
  assumes "add_arguments (allocate_custom rest) calls = (Inr offsets, b)"
    and "i < j" and "j < length calls"
  shows "offsets ! i + size' (snd (calls ! i)) \<le> offsets ! j"
proof -
  from add_arguments_building [OF state_allocate_custom holds_elements_allocate_custom assms(1)]
  have "offsets = offsets_from 0 (map snd calls)" by (simp add: allocate_custom_def)
  with offsets_from_disjoint [of i j "map snd calls" 0] assms(2,3) show ?thesis by simp
qed

text \<open>
  C3, as stated: \<^verbatim>\<open>add_argument\<close> fails on every buffer specification whose state is not
  \<^verbatim>\<open>BUILDING\<close>. It does not: after an unpassable element the state is
  \<^verbatim>\<open>BUILDING_UNPASSABLE\<close>, and \<^verbatim>\<open>add_argument\<close> returns the offset 2.
\<close>

theorem add_argument_unpassable_succeeds:
  "state (snd (ctypes_add_unpassable_argument ctypes_allocate_bufferspec 1 1)) \<noteq> BUILDING
   \<and> fst (ctypes_add_argument True
            (snd (ctypes_add_unpassable_argument ctypes_allocate_bufferspec 1 1))
            \<lparr>size' = 4, alignment' = 4\<rparr>) = Inr 2"
  by (simp add: ctypes_allocate_bufferspec_def allocate_custom_def ctypes_add_argument_def
      ctypes_add_unpassable_argument_def ctypes_add_unpassable_argument'_def aligned_offset_simps)

text \<open>
  C3, amended: \<^verbatim>\<open>add_argument\<close> fails with a failed assertion, leaving the buffer
  specification as it was, in every state other than \<^verbatim>\<open>BUILDING\<close> and
  \<^verbatim>\<open>BUILDING_UNPASSABLE\<close>; it returns an offset only in these two states; and in state
  \<^verbatim>\<open>BUILDING_UNPASSABLE\<close> it adds the element as an unpassable one, by its size and
  alignment.
\<close>

theorem add_argument_state_gate:
  "(state b \<noteq> BUILDING \<and> state b \<noteq> BUILDING_UNPASSABLE \<longrightarrow>
      ctypes_add_argument granted b t = (Inl Assertion_failure, b))
   \<and> (fst (ctypes_add_argument granted b t) = Inr offset \<longrightarrow>
      state b = BUILDING \<or> state b = BUILDING_UNPASSABLE)
   \<and> (state b = BUILDING_UNPASSABLE \<longrightarrow>
      ctypes_add_argument granted b t
        = ctypes_add_unpassable_argument b (size' t) (unat (alignment' t)))"
  by (cases "state b") (simp_all add: ctypes_add_argument_def ctypes_add_unpassable_argument_def)

theorem add_argument_state_gate_witness:
  "ctypes_add_argument True (ctypes_allocate_bufferspec\<lparr>state := STRUCTSPEC\<rparr>)
      \<lparr>size' = 4, alignment' = 4\<rparr>
     = (Inl Assertion_failure, ctypes_allocate_bufferspec\<lparr>state := STRUCTSPEC\<rparr>)
   \<and> fst (ctypes_add_argument True
            (ctypes_allocate_bufferspec\<lparr>bytes := 1, state := BUILDING_UNPASSABLE\<rparr>)
            \<lparr>size' = 4, alignment' = 4\<rparr>) = Inr 2
   \<and> state (ctypes_allocate_bufferspec\<lparr>bytes := 1, state := BUILDING_UNPASSABLE\<rparr>)
       = BUILDING_UNPASSABLE"
  using add_argument_state_gate [of "ctypes_allocate_bufferspec\<lparr>state := STRUCTSPEC\<rparr>" True
      "\<lparr>size' = 4, alignment' = 4\<rparr>" 0]
    add_argument_state_gate
      [of "ctypes_allocate_bufferspec\<lparr>bytes := 1, state := BUILDING_UNPASSABLE\<rparr>" True
      "\<lparr>size' = 4, alignment' = 4\<rparr>" 2]
  by (simp add: ctypes_allocate_bufferspec_def allocate_custom_def
      ctypes_add_unpassable_argument_def ctypes_add_unpassable_argument'_def aligned_offset_simps)

text \<open>
  C4. Completing a struct in state \<^verbatim>\<open>BUILDING_UNPASSABLE\<close> moves the buffer specification
  to \<^verbatim>\<open>STRUCTSPEC_UNPASSABLE\<close>. On the buffer specification with one unpassable element of
  size 1 and alignment 1, \<^verbatim>\<open>ctypes_complete_structspec\<close> returns the descriptor and leaves
  the state \<^verbatim>\<open>BUILDING_UNPASSABLE\<close>, whatever the platform.
\<close>

theorem complete_structspec_unpassable_state_unchanged:
  "ctypes_complete_structspec P
      (snd (ctypes_add_unpassable_argument ctypes_allocate_bufferspec 1 1))
     = (Inr \<lparr>size' = 1, alignment' = 1\<rparr>,
        \<lparr>bytes = 1, nelements = 1, capacity = 0, max_align = 1, state = BUILDING_UNPASSABLE,
         args = None\<rparr>)"
  by (simp add: ctypes_allocate_bufferspec_def allocate_custom_def ctypes_complete_structspec_def
      ctypes_add_unpassable_argument_def ctypes_add_unpassable_argument'_def aligned_offset_simps
      ctypes_allocate_struct_type_info_def)

subsection \<open>The descriptor of a completed struct\<close>

text \<open>
  What \<^verbatim>\<open>ctypes_complete_structspec\<close> returns in state \<^verbatim>\<open>BUILDING_UNPASSABLE\<close>: the size
  is the value of the helper \<^verbatim>\<open>aligned_offset\<close> at the byte count and the maximum alignment,
  the alignment is the maximum alignment cut to 16 bits, and the buffer specification is
  unchanged.
\<close>

lemma complete_structspec_unpassable:
  "state b = BUILDING_UNPASSABLE \<Longrightarrow> max_align b \<noteq> 0
   \<Longrightarrow> ctypes_complete_structspec P b
       = (Inr \<lparr>size' = bytes b + bytes b mod max_align b,
               alignment' = word_of_nat (max_align b)\<rparr>, b)"
  by (simp add: ctypes_complete_structspec_def aligned_offset_def)

text \<open>
  C5. On a buffer specification with unpassable elements only, the descriptor's size is the
  least multiple of the maximum alignment that is not below the byte count, and its
  alignment is the maximum alignment. After the unpassable elements of size 4, alignment 4
  and size 1, alignment 1 the byte count is 5 and the maximum alignment 4, and
  \<^verbatim>\<open>ctypes_complete_structspec\<close> returns a descriptor of size 6: no multiple of 4, where
  the least multiple of 4 that is not below 5 is 8.
\<close>

theorem complete_structspec_unpassable_size_not_aligned:
  "bytes (snd (ctypes_add_unpassable_argument
          (snd (ctypes_add_unpassable_argument ctypes_allocate_bufferspec 4 4)) 1 1)) = 5
   \<and> max_align (snd (ctypes_add_unpassable_argument
          (snd (ctypes_add_unpassable_argument ctypes_allocate_bufferspec 4 4)) 1 1)) = 4
   \<and> fst (ctypes_complete_structspec P
        (snd (ctypes_add_unpassable_argument
          (snd (ctypes_add_unpassable_argument ctypes_allocate_bufferspec 4 4)) 1 1)))
       = Inr \<lparr>size' = 6, alignment' = 4\<rparr>
   \<and> \<not> (4::nat) dvd 6 \<and> (4::nat) dvd 8 \<and> (5::nat) \<le> 8"
  by (simp add: ctypes_allocate_bufferspec_def allocate_custom_def ctypes_complete_structspec_def
      ctypes_add_unpassable_argument_def ctypes_add_unpassable_argument'_def aligned_offset_def
      ctypes_allocate_struct_type_info_def)

subsection \<open>The pointer array of a call\<close>

lemma populate_loop_offsets:
  assumes "nelements b = length ts" and "args b = Some xs" and "length ts \<le> length xs"
    and "take (length ts) xs = map Ptr ts" and "\<forall>t \<in> set ts. alignment' t \<noteq> 0"
    and "i \<le> length ts" and "length arg_array = length ts"
  shows "populate_loop b buf i offset arg_array
           = Inr (take i arg_array @ map (\<lambda>k. Ptr (buf + k)) (offsets_from offset (drop i ts)))"
  using assms
proof (induction b buf i offset arg_array rule: populate_loop.induct)
  case (1 b buf i offset arg_array)
  show ?case
  proof (cases "i < nelements b")
    case False
    with "1.prems" show ?thesis by (subst populate_loop.simps) simp
  next
    case True
    with "1.prems" have lt: "i < length ts" by simp
    from lt have "xs ! i = take (length ts) xs ! i" by simp
    also have "\<dots> = map Ptr ts ! i" by (simp only: "1.prems"(4))
    also have "\<dots> = Ptr (ts ! i)" using lt by simp
    finally have xi: "xs ! i = Ptr (ts ! i)" .
    with lt "1.prems" have ld: "load (args b) i = Inr (ts ! i)" by (simp add: load_def)
    from lt "1.prems" have al: "alignment' (ts ! i) \<noteq> 0" by simp
    then have ao: "aligned_offset offset (unat (alignment' (ts ! i)))
                     = Inr (offset + offset mod unat (alignment' (ts ! i)))"
      by (simp add: aligned_offset_simps)
    from lt have d: "drop i ts = ts ! i # drop (i + 1) ts" by (simp add: Cons_nth_drop_Suc)
    have ia: "i < length arg_array" using lt "1.prems" by simp
    from "1.IH" [OF True ld ao ia] "1.prems" lt
    have "populate_loop b buf (i + 1)
            (offset + offset mod unat (alignment' (ts ! i)) + size' (ts ! i))
            (arg_array[i := Ptr (buf + (offset + offset mod unat (alignment' (ts ! i))))])
          = Inr (take (i + 1)
                   (arg_array[i := Ptr (buf + (offset + offset mod unat (alignment' (ts ! i))))])
                 @ map (\<lambda>k. Ptr (buf + k))
                     (offsets_from
                        (offset + offset mod unat (alignment' (ts ! i)) + size' (ts ! i))
                        (drop (i + 1) ts)))"
      by simp
    with True ld ao ia d show ?thesis
      by (subst populate_loop.simps) (simp add: take_Suc_conv_app_nth)
  qed
qed

lemma prep_callspec_success:
  "ctypes_prep_callspec P c rffitype = (Inr u, c')
   \<Longrightarrow> state c' = CALLSPEC \<and> args c' = args c \<and> nelements c' = nelements c"
  by (auto simp add: ctypes_prep_callspec_def Let_def split: sum.splits prod.splits)

text \<open>
  C6, as stated: for every call specification in state \<^verbatim>\<open>CALLSPEC\<close>,
  \<^verbatim>\<open>populate_callbuffer\<close> gives each element the offset that \<^verbatim>\<open>add_argument\<close> returned for
  it. It does not when a call failed on the way: an \<^verbatim>\<open>add_argument\<close> whose \<^verbatim>\<open>realloc\<close> is
  refused raises after it has raised the byte count to 4; the next \<^verbatim>\<open>add_argument\<close>
  succeeds and returns the offset 4; the call specification is prepared and is in state
  \<^verbatim>\<open>CALLSPEC\<close>; and \<^verbatim>\<open>populate_callbuffer\<close>, walking from zero, puts the one element at
  the buffer address itself, offset 0.
\<close>

theorem populate_callbuffer_after_refused_realloc:
  "fst (ctypes_add_argument False (ctypes_allocate_callspec 0 \<lparr>nargs = 0\<rparr>)
          \<lparr>size' = 4, alignment' = 4\<rparr>) = Inl Out_of_memory
   \<and> fst (ctypes_add_argument True
            (snd (ctypes_add_argument False (ctypes_allocate_callspec 0 \<lparr>nargs = 0\<rparr>)
                    \<lparr>size' = 4, alignment' = 4\<rparr>))
            \<lparr>size' = 4, alignment' = 4\<rparr>) = Inr 4
   \<and> fst (ctypes_prep_callspec
            \<lparr>ffi_type_pointer = \<lparr>size' = 8, alignment' = 8\<rparr>, sizeof_pointer = 8,
             ffi_prep_cif = (\<lambda>n r a. (FFI_OK, \<lparr>nargs = n\<rparr>))\<rparr>
            (snd (ctypes_add_argument True
               (snd (ctypes_add_argument False (ctypes_allocate_callspec 0 \<lparr>nargs = 0\<rparr>)
                       \<lparr>size' = 4, alignment' = 4\<rparr>))
               \<lparr>size' = 4, alignment' = 4\<rparr>))
            \<lparr>size' = 4, alignment' = 4\<rparr>) = Inr ()
   \<and> state (snd (ctypes_prep_callspec
            \<lparr>ffi_type_pointer = \<lparr>size' = 8, alignment' = 8\<rparr>, sizeof_pointer = 8,
             ffi_prep_cif = (\<lambda>n r a. (FFI_OK, \<lparr>nargs = n\<rparr>))\<rparr>
            (snd (ctypes_add_argument True
               (snd (ctypes_add_argument False (ctypes_allocate_callspec 0 \<lparr>nargs = 0\<rparr>)
                       \<lparr>size' = 4, alignment' = 4\<rparr>))
               \<lparr>size' = 4, alignment' = 4\<rparr>))
            \<lparr>size' = 4, alignment' = 4\<rparr>)) = CALLSPEC
   \<and> populate_callbuffer
         (snd (ctypes_prep_callspec
            \<lparr>ffi_type_pointer = \<lparr>size' = 8, alignment' = 8\<rparr>, sizeof_pointer = 8,
             ffi_prep_cif = (\<lambda>n r a. (FFI_OK, \<lparr>nargs = n\<rparr>))\<rparr>
            (snd (ctypes_add_argument True
               (snd (ctypes_add_argument False (ctypes_allocate_callspec 0 \<lparr>nargs = 0\<rparr>)
                       \<lparr>size' = 4, alignment' = 4\<rparr>))
               \<lparr>size' = 4, alignment' = 4\<rparr>))
            \<lparr>size' = 4, alignment' = 4\<rparr>))
         1000 32 24
       = Inr [Ptr 1000]
   \<and> (1000::nat) \<noteq> 1000 + 4"
  by code_simp

text \<open>
  C6, amended: for every call specification built from a fresh one by \<^verbatim>\<open>add_argument\<close>
  calls that all succeeded, and then prepared by a \<^verbatim>\<open>ctypes_prep_callspec\<close> that succeeded,
  the call specification is in state \<^verbatim>\<open>CALLSPEC\<close> and \<^verbatim>\<open>populate_callbuffer\<close>, which walks
  the element types again from offset zero, fills the pointer array with the buffer address
  plus the very offsets that the \<^verbatim>\<open>add_argument\<close> calls returned, in order.
\<close>

theorem populate_callbuffer_matches_add_argument:
  assumes "add_arguments (ctypes_allocate_callspec r c0) calls = (Inr offsets, c)"
    and "ctypes_prep_callspec P c rffitype = (Inr u, c')"
  shows "state c' = CALLSPEC
         \<and> populate_callbuffer c' buf bytes' arg_array_offset
             = Inr (map (\<lambda>offset. Ptr (buf + offset)) offsets)"
proof -
  let ?ts = "map snd calls"
  have st: "state (ctypes_allocate_callspec r c0) = BUILDING"
    and he: "holds_elements (ctypes_allocate_callspec r c0) []"
    and b0: "bytes (ctypes_allocate_callspec r c0) = 0"
    by (simp_all add: ctypes_allocate_callspec_def allocate_custom_def holds_elements_def)
  from add_arguments_building [OF st he assms(1)] b0
  have b: "holds_elements c ?ts" "offsets = offsets_from 0 ?ts"
    "\<forall>t \<in> set ?ts. alignment' t \<noteq> 0"
    by simp_all
  from prep_callspec_success [OF assms(2)]
  have p: "state c' = CALLSPEC" "args c' = args c" "nelements c' = nelements c" by simp_all
  show ?thesis
  proof (cases "args c")
    case None
    with b p have "nelements c' = 0" "offsets = []" by (simp_all add: holds_elements_def)
    with p show ?thesis
      by (simp add: populate_callbuffer_def populate_loop.simps [of c'])
  next
    case (Some xs)
    with b p have "nelements c' = length ?ts" "args c' = Some xs" "length ?ts \<le> length xs"
      "take (length ?ts) xs = map Ptr ?ts"
      by (simp_all add: holds_elements_def)
    from populate_loop_offsets [OF this b(3), of 0 "replicate (nelements c') Indeterminate" buf 0]
      \<open>nelements c' = length ?ts\<close> b(2) p(1)
    show ?thesis by (simp add: populate_callbuffer_def)
  qed
qed

theorem populate_callbuffer_matches_add_argument_witness:
  "fst (add_arguments (ctypes_allocate_callspec 0 \<lparr>nargs = 0\<rparr>)
          [(True, \<lparr>size' = 4, alignment' = 4\<rparr>), (True, \<lparr>size' = 8, alignment' = 8\<rparr>)])
     = Inr [0, 8]
   \<and> populate_callbuffer
         (snd (ctypes_prep_callspec
                 \<lparr>ffi_type_pointer = \<lparr>size' = 8, alignment' = 8\<rparr>, sizeof_pointer = 8,
                  ffi_prep_cif = (\<lambda>n r a. (FFI_OK, \<lparr>nargs = n\<rparr>))\<rparr>
                 (snd (add_arguments (ctypes_allocate_callspec 0 \<lparr>nargs = 0\<rparr>)
                    [(True, \<lparr>size' = 4, alignment' = 4\<rparr>), (True, \<lparr>size' = 8, alignment' = 8\<rparr>)]))
                 \<lparr>size' = 4, alignment' = 4\<rparr>))
         1000 40 24
       = Inr [Ptr 1000, Ptr 1008]"
proof -
  let ?P = "\<lparr>ffi_type_pointer = \<lparr>size' = 8, alignment' = 8\<rparr>, sizeof_pointer = 8,
             ffi_prep_cif = (\<lambda>n r a. (FFI_OK, \<lparr>nargs = n\<rparr>))\<rparr>"
  let ?calls = "[(True, \<lparr>size' = 4, alignment' = 4\<rparr>), (True, \<lparr>size' = 8, alignment' = 8\<rparr>)]"
  let ?c = "snd (add_arguments (ctypes_allocate_callspec 0 \<lparr>nargs = 0\<rparr>) ?calls)"
  let ?c' = "snd (ctypes_prep_callspec ?P ?c \<lparr>size' = 4, alignment' = 4\<rparr>)"
  have run: "add_arguments (ctypes_allocate_callspec 0 \<lparr>nargs = 0\<rparr>) ?calls = (Inr [0, 8], ?c)"
    by (simp add: ctypes_allocate_callspec_def allocate_custom_def ctypes_add_argument_def
        aligned_offset_simps realloc_def store_def increment_size_def)
  have prep: "ctypes_prep_callspec ?P ?c \<lparr>size' = 4, alignment' = 4\<rparr> = (Inr (), ?c')"
    by (simp add: ctypes_prep_callspec_def aligned_offset_simps check_ffi_status_def Let_def)
  have A: "fst (add_arguments (ctypes_allocate_callspec 0 \<lparr>nargs = 0\<rparr>) ?calls) = Inr [0, 8]"
    by code_simp
  from populate_callbuffer_matches_add_argument [OF run prep, of 1000 40 24]
  have "populate_callbuffer ?c' 1000 40 24 = Inr (map (\<lambda>offset. Ptr (1000 + offset)) [0, 8])"
    by (rule conjunct2)
  also have "\<dots> = Inr [Ptr 1000, Ptr 1008]" by simp
  finally have B: "populate_callbuffer ?c' 1000 40 24 = Inr [Ptr 1000, Ptr 1008]" .
  from A B show ?thesis by (rule conjI)
qed

subsection \<open>The call that checks errno\<close>

lemma strcpy_no_nul: "CHR 0x00 \<notin> set name \<Longrightarrow> strcpy name = name"
  by (auto simp add: strcpy_def)

text \<open>
  C7, as stated: \<^verbatim>\<open>errno\<close> is set to zero immediately before the C function is called and
  inspected immediately after it, and when it is zero then the value of the return reader is
  returned. It is not so: the return reader runs between the C function and the inspection.
  Here the C function leaves \<^verbatim>\<open>errno\<close> at zero, the return reader returns 42 and leaves
  \<^verbatim>\<open>errno\<close> at 2, and \<^verbatim>\<open>ctypes_call_errno\<close> raises \<^verbatim>\<open>Unix_error\<close> with code 2.
\<close>

theorem call_errno_reader_sets_errno:
  "errno ((\<lambda>(c::ffi_cif) (f::unit) (ret::nat) (avalue::nat) (arg_array::nat slot list)
              (w::world). w)
            \<lparr>nargs = 0\<rparr> () 1000 1016 [] \<lparr>errno = 0\<rparr>) = 0
   \<and> ctypes_call_errno
        \<lparr>ffi_type_pointer = \<lparr>size' = 8, alignment' = 8\<rparr>, sizeof_pointer = 8,
         ffi_prep_cif = (\<lambda>n r a. (FFI_OK, \<lparr>nargs = n\<rparr>))\<rparr>
        (\<lambda>(c::ffi_cif) (f::unit) (ret::nat) (avalue::nat) (arg_array::nat slot list)
           (w::world). w)
        1000 ''read'' ()
        \<lparr>bytes = 16, nelements = 0, capacity = 0, max_align = 0, state = CALLSPEC, args = None,
         roffset = 0, cif = \<lparr>nargs = 0\<rparr>\<rparr>
        (\<lambda>a w. (Inr (), w)) (\<lambda>a w. (Inr (42::int), w\<lparr>errno := 2\<rparr>)) \<lparr>errno = 3\<rparr>
      = (Inl (Unix_error 2 ''read''), \<lparr>errno = 2\<rparr>)"
  by (simp add: ctypes_call_errno_def ctypes_call_def compute_arg_buffer_size_def
      populate_callbuffer_def populate_loop.simps aligned_offset_def strcpy_def)

text \<open>
  C7, amended: \<^verbatim>\<open>ctypes_call_errno\<close> sets \<^verbatim>\<open>errno\<close> to zero before the argument writer
  runs and inspects it after the return reader has returned. If the argument writer or the
  return reader raises, that exception is passed on and \<^verbatim>\<open>errno\<close> is not inspected.
  Otherwise the result is \<^verbatim>\<open>Unix_error\<close> with the code found and the function name (up to
  its first NUL byte, so the whole name if it has none) if the code is not zero, and the
  value of the return reader if it is zero. When the argument writer leaves \<^verbatim>\<open>errno\<close> at
  zero and the return reader leaves it as the C function left it, the code inspected is the
  one the C function left.
\<close>

theorem call_errno_checks_indicator:
  assumes "state callspec = CALLSPEC"
    and "alignment' (ffi_type_pointer P) \<noteq> 0"
    and "populate_callbuffer callspec buffer bytes' arg_array_offset = Inr arg_array"
    and "w2 = ffi_call (cif callspec) cfunction (buffer + roffset callspec)
                (buffer + (bytes callspec
                           + bytes callspec mod unat (alignment' (ffi_type_pointer P))))
                arg_array w1"
  shows "(argwriter buffer (w\<lparr>errno := 0\<rparr>) = (Inl e, w1) \<longrightarrow>
            ctypes_call_errno P ffi_call buffer fnname cfunction callspec argwriter rvreader w
              = (Inl e, w1))
         \<and> (argwriter buffer (w\<lparr>errno := 0\<rparr>) = (Inr (), w1)
              \<and> rvreader (buffer + roffset callspec) w2 = (Inl e, w3) \<longrightarrow>
            ctypes_call_errno P ffi_call buffer fnname cfunction callspec argwriter rvreader w
              = (Inl e, w3))
         \<and> (argwriter buffer (w\<lparr>errno := 0\<rparr>) = (Inr (), w1)
              \<and> rvreader (buffer + roffset callspec) w2 = (Inr rv, w3) \<longrightarrow>
            ctypes_call_errno P ffi_call buffer fnname cfunction callspec argwriter rvreader w
              = (if errno w3 = 0 then (Inr rv, w3)
                 else (Inl (Unix_error (errno w3) (strcpy fnname)), w3)))
         \<and> (argwriter buffer (w\<lparr>errno := 0\<rparr>) = (Inr (), w1)
              \<and> rvreader (buffer + roffset callspec) w2 = (Inr rv, w3)
              \<and> errno w1 = 0 \<and> errno w3 = errno w2 \<longrightarrow>
            ctypes_call_errno P ffi_call buffer fnname cfunction callspec argwriter rvreader w
              = (if errno w2 = 0 then (Inr rv, w3)
                 else (Inl (Unix_error (errno w2) (strcpy fnname)), w3)))
         \<and> (CHR 0x00 \<notin> set fnname \<longrightarrow> strcpy fnname = fnname)"
  using assms
  by (simp add: ctypes_call_errno_def ctypes_call_def compute_arg_buffer_size_def
      populate_callbuffer_def aligned_offset_simps Let_def strcpy_no_nul)

theorem call_errno_checks_indicator_witness:
  "ctypes_call_errno
      \<lparr>ffi_type_pointer = \<lparr>size' = 8, alignment' = 8\<rparr>, sizeof_pointer = 8,
       ffi_prep_cif = (\<lambda>n r a. (FFI_OK, \<lparr>nargs = n\<rparr>))\<rparr>
      (\<lambda>c f ret avalue arg_array w. w\<lparr>errno := f\<rparr>) 1000 ''read'' 0
      \<lparr>bytes = 16, nelements = 0, capacity = 0, max_align = 0, state = CALLSPEC, args = None,
       roffset = 0, cif = \<lparr>nargs = 0\<rparr>\<rparr>
      (\<lambda>a w. (Inr (), w)) (\<lambda>a w. (Inr (42::int), w)) \<lparr>errno = 3\<rparr>
     = (Inr 42, \<lparr>errno = 0\<rparr>)
   \<and> ctypes_call_errno
      \<lparr>ffi_type_pointer = \<lparr>size' = 8, alignment' = 8\<rparr>, sizeof_pointer = 8,
       ffi_prep_cif = (\<lambda>n r a. (FFI_OK, \<lparr>nargs = n\<rparr>))\<rparr>
      (\<lambda>c f ret avalue arg_array w. w\<lparr>errno := f\<rparr>) 1000 ''read'' 5
      \<lparr>bytes = 16, nelements = 0, capacity = 0, max_align = 0, state = CALLSPEC, args = None,
       roffset = 0, cif = \<lparr>nargs = 0\<rparr>\<rparr>
      (\<lambda>a w. (Inr (), w)) (\<lambda>a w. (Inr (42::int), w)) \<lparr>errno = 3\<rparr>
     = (Inl (Unix_error 5 ''read''), \<lparr>errno = 5\<rparr>)
   \<and> ctypes_call_errno
      \<lparr>ffi_type_pointer = \<lparr>size' = 8, alignment' = 8\<rparr>, sizeof_pointer = 8,
       ffi_prep_cif = (\<lambda>n r a. (FFI_OK, \<lparr>nargs = n\<rparr>))\<rparr>
      (\<lambda>c f ret avalue arg_array w. w\<lparr>errno := f\<rparr>) 1000 ''read'' 5
      \<lparr>bytes = 16, nelements = 0, capacity = 0, max_align = 0, state = CALLSPEC, args = None,
       roffset = 0, cif = \<lparr>nargs = 0\<rparr>\<rparr>
      (\<lambda>a w. (Inr (), w)) (\<lambda>a w. (Inl (Caml_exception ''Not_found''), w)) \<lparr>errno = 3\<rparr>
     = (Inl (Caml_exception ''Not_found'') :: error + int, \<lparr>errno = 5\<rparr>)"
proof -
  let ?P = "\<lparr>ffi_type_pointer = \<lparr>size' = 8, alignment' = 8\<rparr>, sizeof_pointer = 8,
             ffi_prep_cif = (\<lambda>n r a. (FFI_OK, \<lparr>nargs = n\<rparr>))\<rparr>"
  let ?call = "\<lambda>(c::ffi_cif) (f::int) (ret::nat) (avalue::nat) (arg_array::nat slot list)
                 (w::world). w\<lparr>errno := f\<rparr>"
  let ?cs = "\<lparr>bytes = 16, nelements = 0, capacity = 0, max_align = 0, state = CALLSPEC,
              args = None, roffset = 0, cif = \<lparr>nargs = 0\<rparr>\<rparr>"
  let ?aw = "\<lambda>(a::nat) (w::world). (Inr () :: error + unit, w)"
  let ?rr = "\<lambda>(a::nat) (w::world). (Inr (42::int) :: error + int, w)"
  let ?rx = "\<lambda>(a::nat) (w::world). (Inl (Caml_exception ''Not_found'') :: error + int, w)"
  have pop: "populate_callbuffer ?cs 1000 16 16 = Inr []"
    by (simp add: populate_callbuffer_def populate_loop.simps)
  from call_errno_checks_indicator [where callspec = ?cs and P = ?P and buffer = 1000
      and bytes' = 16 and arg_array_offset = 16 and arg_array = "[]" and argwriter = ?aw
      and w = "\<lparr>errno = 3\<rparr>" and ?w1.0 = "\<lparr>errno = 0\<rparr>" and ?w2.0 = "\<lparr>errno = 0\<rparr>"
      and ffi_call = ?call and cfunction = 0 and rvreader = ?rr and rv = 42
      and ?w3.0 = "\<lparr>errno = 0\<rparr>" and fnname = "''read''"]
    call_errno_checks_indicator [where callspec = ?cs and P = ?P and buffer = 1000
      and bytes' = 16 and arg_array_offset = 16 and arg_array = "[]" and argwriter = ?aw
      and w = "\<lparr>errno = 3\<rparr>" and ?w1.0 = "\<lparr>errno = 0\<rparr>" and ?w2.0 = "\<lparr>errno = 5\<rparr>"
      and ffi_call = ?call and cfunction = 5 and rvreader = ?rr and rv = 42
      and ?w3.0 = "\<lparr>errno = 5\<rparr>" and fnname = "''read''"]
    call_errno_checks_indicator [where callspec = ?cs and P = ?P and buffer = 1000
      and bytes' = 16 and arg_array_offset = 16 and arg_array = "[]" and argwriter = ?aw
      and w = "\<lparr>errno = 3\<rparr>" and ?w1.0 = "\<lparr>errno = 0\<rparr>" and ?w2.0 = "\<lparr>errno = 5\<rparr>"
      and ffi_call = ?call and cfunction = 5 and rvreader = ?rx
      and e = "Caml_exception ''Not_found''"
      and ?w3.0 = "\<lparr>errno = 5\<rparr>" and fnname = "''read''"]
    pop
  show ?thesis by (simp add: strcpy_def)
qed

subsection \<open>The callback handler\<close>

lemma callback_loop_consume_Some:
  "length args' = arity \<Longrightarrow> i \<le> arity \<Longrightarrow> consume_chain node (drop i args') w = Some (node', w')
   \<Longrightarrow> callback_loop arity i args' node w = (Inr node', w')"
proof (induction arity i args' node w rule: callback_loop.induct)
  case (1 arity i args' boxedfn w)
  show ?case
  proof (cases "i < arity")
    case False
    with "1.prems" show ?thesis by (subst callback_loop.simps) simp
  next
    case True
    with "1.prems" have lt: "i < length args'" by simp
    then have d: "drop i args' = args' ! i # drop (i + 1) args'"
      by (simp add: Cons_nth_drop_Suc)
    show ?thesis
    proof (cases boxedfn)
      case (Done h)
      with "1.prems" d show ?thesis by simp
    next
      case (Fn f)
      obtain n1 w1 where s: "f (args' ! i) w = (n1, w1)" by (cases "f (args' ! i) w")
      from "1.prems" d Fn s have "consume_chain n1 (drop (i + 1) args') w1 = Some (node', w')"
        by simp
      with "1.IH" [OF True lt Fn s [symmetric]] True "1.prems"
      have "callback_loop arity (i + 1) args' n1 w1 = (Inr node', w')" by simp
      with True lt Fn s show ?thesis by (subst callback_loop.simps) simp
    qed
  qed
qed

lemma callback_loop_consume_None:
  "length args' = arity \<Longrightarrow> i \<le> arity \<Longrightarrow> consume_chain node (drop i args') w = None
   \<Longrightarrow> fst (callback_loop arity i args' node w) = Inl Assertion_failure"
proof (induction arity i args' node w rule: callback_loop.induct)
  case (1 arity i args' boxedfn w)
  show ?case
  proof (cases "i < arity")
    case False
    with "1.prems" show ?thesis by (subst callback_loop.simps) simp
  next
    case True
    with "1.prems" have lt: "i < length args'" by simp
    then have d: "drop i args' = args' ! i # drop (i + 1) args'"
      by (simp add: Cons_nth_drop_Suc)
    show ?thesis
    proof (cases boxedfn)
      case (Done h)
      with lt True show ?thesis by (subst callback_loop.simps) simp
    next
      case (Fn f)
      obtain n1 w1 where s: "f (args' ! i) w = (n1, w1)" by (cases "f (args' ! i) w")
      from "1.prems" d Fn s have "consume_chain n1 (drop (i + 1) args') w1 = None"
        by simp
      with "1.IH" [OF True lt Fn s [symmetric]] True "1.prems"
      have "fst (callback_loop arity (i + 1) args' n1 w1) = Inl Assertion_failure" by simp
      with True lt Fn s show ?thesis by (subst callback_loop.simps) simp
    qed
  qed
qed

text \<open>
  C8. With as many argument addresses as the call interface has arguments, the handler
  consumes one \<open>Fn\<close> node per argument, in order. If the node left after the last argument
  is \<open>Done h\<close>, the handler applies \<open>h\<close> to the address of the return slot and returns; if
  the chain ends early or a \<open>Fn\<close> node is left, an assertion fails.
\<close>

theorem callback_handler_consumes_chain:
  assumes "length args' = nargs cif'"
  shows "case consume_chain node args' w of
           Some (Done h, w') \<Rightarrow> callback_handler cif' ret args' node w = (Inr (), h ret w')
         | Some (Fn f, w') \<Rightarrow> callback_handler cif' ret args' node w = (Inl Assertion_failure, w')
         | None \<Rightarrow> fst (callback_handler cif' ret args' node w) = Inl Assertion_failure"
proof (cases "consume_chain node args' w")
  case None
  with callback_loop_consume_None [of args' "nargs cif'" 0 node w] assms
  show ?thesis
    by (cases "callback_loop (nargs cif') 0 args' node w") (auto simp add: callback_handler_def)
next
  case (Some r)
  obtain n' w' where r: "r = (n', w')" by (cases r)
  with Some callback_loop_consume_Some [of args' "nargs cif'" 0 node w n' w'] assms
  show ?thesis by (cases n') (simp_all add: callback_handler_def)
qed

theorem callback_handler_consumes_chain_witness:
  "callback_handler \<lparr>nargs = 1\<rparr> 200 [100]
      (Fn (\<lambda>a w. (Done (\<lambda>r w'. w'(r := w' a)), w))) ((\<lambda>p. 0)(100 := 7 :: int))
     = (Inr (), ((\<lambda>p. 0)(100 := 7))(200 := 7))
   \<and> fst (callback_handler \<lparr>nargs = 1\<rparr> 200 [100]
      (Done (\<lambda>r w. w)) ((\<lambda>p. 0)(100 := 7 :: int))) = Inl Assertion_failure
   \<and> callback_handler \<lparr>nargs = 0\<rparr> 200 []
      (Fn (\<lambda>a w. (Done (\<lambda>r w'. w'(r := w' a)), w))) ((\<lambda>p. 0)(100 := 7 :: int))
     = (Inl Assertion_failure, (\<lambda>p. 0)(100 := 7))"
  using callback_handler_consumes_chain [where args' = "[100]" and cif' = "\<lparr>nargs = 1\<rparr>"
      and node = "Fn (\<lambda>a w. (Done (\<lambda>r w'. w'(r := w' a)), w))"
      and w = "(\<lambda>p. 0)(100 := 7 :: int)" and ret = 200]
    callback_handler_consumes_chain [where args' = "[100]" and cif' = "\<lparr>nargs = 1\<rparr>"
      and node = "Done (\<lambda>r w. w)" and w = "(\<lambda>p. 0)(100 := 7 :: int)" and ret = 200]
    callback_handler_consumes_chain [where args' = "[]" and cif' = "\<lparr>nargs = 0\<rparr>"
      and node = "Fn (\<lambda>a w. (Done (\<lambda>r w'. w'(r := w' a)), w))"
      and w = "(\<lambda>p. 0)(100 := 7 :: int)" and ret = 200]
  by simp

subsection \<open>The null terminator of the element array\<close>

text \<open>
  C9. After every successful \<^verbatim>\<open>add_argument\<close> call on a buffer specification built by
  \<^verbatim>\<open>add_argument\<close> calls, the array has \<open>capacity\<close> cells, the capacity exceeds the number
  of elements by at least one, the cells before the terminator point to the element types
  and the cell behind the last element is the null pointer; a call leaves the capacity or
  raises it by eight.
\<close>

theorem add_argument_keeps_terminator:
  assumes "add_arguments (allocate_custom rest) calls = (Inr offsets, b)"
    and "ctypes_add_argument granted b t = (Inr offset, b')"
  shows "state b' = BUILDING \<and> nelements b' = length calls + 1
         \<and> nelements b' + 1 \<le> capacity b'
         \<and> (capacity b' = capacity b \<or> capacity b' = capacity b + 8)
         \<and> (\<exists>xs. args b' = Some xs \<and> length xs = capacity b'
                \<and> take (nelements b') xs = map Ptr (map snd calls @ [t])
                \<and> xs ! nelements b' = Null)"
proof -
  from add_arguments_building [OF state_allocate_custom holds_elements_allocate_custom assms(1)]
  have b: "state b = BUILDING" "holds_elements b (map snd calls)" by simp_all
  from add_argument_building [OF b assms(2)]
  have "state b' = BUILDING" "capacity b' = capacity b \<or> capacity b' = capacity b + 8"
    "holds_elements b' (map snd calls @ [t])"
    by simp_all
  then show ?thesis
    by (cases "args b'") (simp_all add: holds_elements_def)
qed

theorem add_argument_keeps_terminator_witness:
  "nelements (snd (ctypes_add_argument True
       (snd (add_arguments ctypes_allocate_bufferspec
          (replicate 6 (True, \<lparr>size' = 1, alignment' = 1\<rparr>))))
       \<lparr>size' = 4, alignment' = 4\<rparr>)) = 7
   \<and> capacity (snd (add_arguments ctypes_allocate_bufferspec
          (replicate 6 (True, \<lparr>size' = 1, alignment' = 1\<rparr>)))) = 8
   \<and> capacity (snd (ctypes_add_argument True
       (snd (add_arguments ctypes_allocate_bufferspec
          (replicate 6 (True, \<lparr>size' = 1, alignment' = 1\<rparr>))))
       \<lparr>size' = 4, alignment' = 4\<rparr>)) = 16
   \<and> (\<exists>xs. args (snd (ctypes_add_argument True
       (snd (add_arguments ctypes_allocate_bufferspec
          (replicate 6 (True, \<lparr>size' = 1, alignment' = 1\<rparr>))))
       \<lparr>size' = 4, alignment' = 4\<rparr>)) = Some xs \<and> length xs = 16 \<and> xs ! 7 = Null)"
proof -
  let ?calls = "replicate 6 (True, \<lparr>size' = 1, alignment' = 1\<rparr>)"
  let ?b = "snd (add_arguments ctypes_allocate_bufferspec ?calls)"
  let ?b' = "snd (ctypes_add_argument True ?b \<lparr>size' = 4, alignment' = 4\<rparr>)"
  have run: "add_arguments (allocate_custom ()) ?calls = (Inr [0, 1, 2, 3, 4, 5], ?b)"
    by code_simp
  have step: "ctypes_add_argument True ?b \<lparr>size' = 4, alignment' = 4\<rparr> = (Inr 8, ?b')"
    by code_simp
  have caps: "capacity ?b = 8" "capacity ?b' = 16" "nelements ?b' = 7"
    by code_simp+
  from add_argument_keeps_terminator [OF run step]
  obtain xs where xs: "args ?b' = Some xs" "length xs = capacity ?b'"
    "xs ! nelements ?b' = Null"
    by blast
  from xs(2) caps(2) have l: "length xs = 16" by (rule trans)
  from xs(3) caps(3) have n: "xs ! 7 = Null" by (simp only:)
  from xs(1) l n have "\<exists>xs. args ?b' = Some xs \<and> length xs = 16 \<and> xs ! 7 = Null"
    by blast
  with caps(3,1,2) show ?thesis by blast
qed

text \<open>
  C10. When \<^verbatim>\<open>ffi_prep_cif\<close> answers \<^verbatim>\<open>FFI_BAD_TYPEDEF\<close> or \<^verbatim>\<open>FFI_BAD_ABI\<close>,
  \<^verbatim>\<open>ctypes_prep_callspec\<close> raises \<^verbatim>\<open>FFI_internal_error\<close> and the state is the one before
  the call (it is not set to \<^verbatim>\<open>CALLSPEC\<close>), but the return offset and the byte count are
  the updated ones: the return slot, the padding to the pointer alignment and the extra
  pointer-sized word are already counted.
\<close>

theorem prep_callspec_failure_keeps_updates:
  assumes "alignment' rffitype \<noteq> 0" and "alignment' (ffi_type_pointer P) \<noteq> 0"
    and "fst (ffi_prep_cif P (nelements c) rffitype (args c)) = FFI_BAD_TYPEDEF
         \<or> fst (ffi_prep_cif P (nelements c) rffitype (args c)) = FFI_BAD_ABI"
  shows "\<exists>msg c'. ctypes_prep_callspec P c rffitype = (Inl (FFI_internal_error msg), c')
           \<and> state c' = state c
           \<and> roffset c' = bytes c + bytes c mod unat (alignment' rffitype)
           \<and> bytes c' = roffset c' + size' rffitype
                          + (roffset c' + size' rffitype)
                              mod unat (alignment' (ffi_type_pointer P))
                          + size' (ffi_type_pointer P)
           \<and> bytes c + size' rffitype + size' (ffi_type_pointer P) \<le> bytes c'"
  using assms
  by (auto simp add: ctypes_prep_callspec_def aligned_offset_simps check_ffi_status_def Let_def
      split: prod.splits)

theorem prep_callspec_failure_keeps_updates_witness:
  "\<exists>msg c'. ctypes_prep_callspec
        \<lparr>ffi_type_pointer = \<lparr>size' = 8, alignment' = 8\<rparr>, sizeof_pointer = 8,
         ffi_prep_cif = (\<lambda>n r a. (FFI_BAD_ABI, \<lparr>nargs = n\<rparr>))\<rparr>
        ((ctypes_allocate_callspec 0 \<lparr>nargs = 0\<rparr>)\<lparr>bytes := 2\<rparr>)
        \<lparr>size' = 4, alignment' = 4\<rparr>
      = (Inl (FFI_internal_error msg), c')
    \<and> state c' = BUILDING \<and> roffset c' = 4 \<and> bytes c' = 16"
  using prep_callspec_failure_keeps_updates
    [of "\<lparr>size' = 4, alignment' = 4\<rparr>"
        "\<lparr>ffi_type_pointer = \<lparr>size' = 8, alignment' = 8\<rparr>, sizeof_pointer = 8,
          ffi_prep_cif = (\<lambda>n r a. (FFI_BAD_ABI, \<lparr>nargs = n\<rparr>))\<rparr>"
        "(ctypes_allocate_callspec 0 \<lparr>nargs = 0\<rparr>)\<lparr>bytes := 2\<rparr>"]
  by (auto simp add: ctypes_allocate_callspec_def allocate_custom_def)

end
